theory Spec2Isabelle
  imports Main "HOL-Library.Word"
begin

section \<open>JavaScript built-ins used by the functions\<close>

text \<open>
  Strings are lists of 8-bit characters. The query string and the path reach the functions
  percent-encoded, so only ASCII letters change under \<^verbatim>\<open>toLowerCase\<close>.
\<close>

definition toLowerCase_char :: "char \<Rightarrow> char" where
  "toLowerCase_char c =
     (let n = (of_char c :: nat) in if 65 \<le> n \<and> n \<le> 90 then char_of (n + 32) else c)"

definition toLowerCase :: "string \<Rightarrow> string" where
  "toLowerCase s = map toLowerCase_char s"

text \<open>
  \<^verbatim>\<open>Array.prototype.join\<close>: the elements with the separator between them; the empty
  array joins to the empty string.
\<close>

fun join :: "string \<Rightarrow> string list \<Rightarrow> string" where
  "join sep [] = []"
| "join sep [x] = x"
| "join sep (x # y # ys) = x @ sep @ join sep (y # ys)"

section \<open>The Normalizer: functions/url-rewrite/index.js\<close>

text \<open>
  The CloudFront request. \<^verbatim>\<open>querystring\<close> is an object from parameter names to
  \<^verbatim>\<open>{value: ...}\<close>; it is modelled as the list of (name, value) pairs in the order
  \<^verbatim>\<open>Object.keys\<close> enumerates them, and \<open>None\<close> when the field is absent (falsy).
\<close>

record request =
  uri :: string
  querystring :: "(string \<times> string) list option"

definition ALLOWED_PRESETS :: "string list" where
  "ALLOWED_PRESETS = [''thumb'', ''small'', ''medium'', ''large'', ''xlarge'', ''small_wide'',
     ''medium_wide'', ''large_wide'', ''xlarge_wide'', ''doordash'']"

text \<open>
  The body of the \<^verbatim>\<open>forEach\<close> callback: one query parameter against the object
  \<^verbatim>\<open>normalizedOperations\<close>, an association list from operation name to value.
  Assigning to \<^verbatim>\<open>normalizedOperations['preset']\<close> overwrites an earlier assignment.
\<close>

fun assign :: "(string \<times> string) list \<Rightarrow> string \<Rightarrow> string \<Rightarrow> (string \<times> string) list" where
  "assign [] k v = [(k, v)]"
| "assign ((k', v') # kvs) k v = (if k' = k then (k, v) # kvs else (k', v') # assign kvs k v)"

definition operation_step ::
  "(string \<times> string) list \<Rightarrow> string \<times> string \<Rightarrow> (string \<times> string) list" where
  "operation_step normalizedOperations kv =
     (case kv of (operation, preset) \<Rightarrow>
        if toLowerCase operation = ''preset'' then
          (if preset \<noteq> [] then
             (if preset \<noteq> [] \<and> toLowerCase preset \<in> set ALLOWED_PRESETS
              then assign normalizedOperations ''preset'' (toLowerCase preset)
              else normalizedOperations)
           else normalizedOperations)
        else normalizedOperations)"

definition handler :: "request \<Rightarrow> request" where
  "handler request =
     (let originalImagePath = uri request;
          request' =
            (case querystring request of
               Some qs \<Rightarrow>
                 (let normalizedOperations = foldl operation_step [] qs in
                  if length normalizedOperations > 0 then
                    (let normalizedOperationsArray =
                           (case map_of normalizedOperations ''preset'' of
                              Some p \<Rightarrow> (if p \<noteq> [] then [''preset='' @ p] else [])
                            | None \<Rightarrow> [])
                     in request\<lparr>uri := originalImagePath @ ''/'' @ join '','' normalizedOperationsArray\<rparr>)
                  else request\<lparr>uri := originalImagePath @ ''/original''\<rparr>)
             | None \<Rightarrow> request\<lparr>uri := originalImagePath @ ''/original''\<rparr>)
      in request'\<lparr>querystring := Some []\<rparr>)"


section \<open>More built-ins: split, Object.fromEntries, parseInt, base64\<close>

text \<open>
  \<^verbatim>\<open>String.prototype.split\<close> with a one-character separator. The result is never
  empty: the empty string splits to one empty string.
\<close>

fun split :: "char \<Rightarrow> string \<Rightarrow> string list" where
  "split sep [] = [[]]"
| "split sep (c # cs) =
     (if c = sep then [] # split sep cs
      else (case split sep cs of [] \<Rightarrow> [[c]] | x # xs \<Rightarrow> (c # x) # xs))"

text \<open>
  \<^verbatim>\<open>Object.fromEntries\<close> on arrays of strings: element 0 is the key, element 1 the
  value (\<open>None\<close> for \<^verbatim>\<open>undefined\<close> when the array has one element), and a later entry
  overwrites an earlier one with the same key. Looking up a key that is not there is
  \<open>None\<close>; a key without value is \<open>Some None\<close>.
\<close>

definition entry_of :: "string list \<Rightarrow> string \<times> string option" where
  "entry_of e = (case e of [] \<Rightarrow> (''undefined'', None) | [k] \<Rightarrow> (k, None) | k # v # _ \<Rightarrow> (k, Some v))"

definition fromEntries :: "string list list \<Rightarrow> string \<Rightarrow> string option option" where
  "fromEntries entries = map_of (rev (map entry_of entries))"

text \<open>
  \<^verbatim>\<open>parseInt\<close> on the longest prefix of decimal digits; \<open>None\<close> is \<^verbatim>\<open>NaN\<close>. The
  functions only pass it the quality literals, which carry no sign, blank or radix prefix.
\<close>

definition digit_of :: "char \<Rightarrow> nat option" where
  "digit_of c = (let n = (of_char c :: nat) in if 48 \<le> n \<and> n \<le> 57 then Some (n - 48) else None)"

fun parse_digits :: "nat option \<Rightarrow> string \<Rightarrow> nat option" where
  "parse_digits acc [] = acc"
| "parse_digits acc (c # cs) =
     (case digit_of c of
        None \<Rightarrow> acc
      | Some d \<Rightarrow> parse_digits (Some (10 * (case acc of None \<Rightarrow> 0 | Some a \<Rightarrow> a) + d)) cs)"

definition parseInt :: "string \<Rightarrow> int option" where
  "parseInt s = map_option int (parse_digits None s)"

text \<open>\<^verbatim>\<open>Buffer.prototype.toString('base64')\<close>: the standard alphabet, padded with \<open>=\<close>.\<close>

type_synonym bytes = "8 word list"

definition base64_alphabet :: string where
  "base64_alphabet = ''ABCDEFGHIJKLMNOPQRSTUVWXYZabcdefghijklmnopqrstuvwxyz0123456789+/''"

definition sextet :: "nat \<Rightarrow> char" where
  "sextet n = base64_alphabet ! (n mod 64)"

fun base64 :: "bytes \<Rightarrow> string" where
  "base64 [] = []"
| "base64 [a] =
     (let n = unat a * 65536 in
      [sextet (n div 262144), sextet (n div 4096), CHR ''='', CHR ''=''])"
| "base64 [a, b] =
     (let n = unat a * 65536 + unat b * 256 in
      [sextet (n div 262144), sextet (n div 4096), sextet (n div 64), CHR ''=''])"
| "base64 (a # b # c # rest) =
     (let n = unat a * 65536 + unat b * 256 + unat c in
      [sextet (n div 262144), sextet (n div 4096), sextet (n div 64), sextet n] @ base64 rest)"

section \<open>The Transformation Engine: functions/image-processing/index.js\<close>

subsection \<open>Events, responses, environment and the outside world\<close>

datatype jsval = JNum int | JStr string

text \<open>A call of the handler either returns a response or rejects with an uncaught error.\<close>

datatype 'a outcome = Returned 'a | Threw string

text \<open>
  The Lambda event. \<open>requestContext_http\<close> is \<^verbatim>\<open>event.requestContext.http\<close>, \<open>None\<close>
  when \<^verbatim>\<open>requestContext\<close> or its \<^verbatim>\<open>http\<close> field is missing; \<open>http_method\<close> is
  its field \<^verbatim>\<open>method\<close>.
\<close>

record http_info =
  http_method :: string
  path :: string

record event =
  headers :: "(string \<times> string) list"
  requestContext_http :: "http_info option"

text \<open>
  A response object; the error responses of \<^verbatim>\<open>sendError\<close> have neither
  \<^verbatim>\<open>isBase64Encoded\<close> nor \<^verbatim>\<open>headers\<close>. A header value is \<open>None\<close> when the
  variable it is read from is \<^verbatim>\<open>undefined\<close>.
\<close>

record response =
  statusCode :: jsval
  body :: string
  isBase64Encoded :: "bool option"
  response_headers :: "(string \<times> string option) list option"

text \<open>The constants read from \<^verbatim>\<open>process.env\<close>; \<open>None\<close> is an unset variable.\<close>

record env =
  originalImageBucketName :: "string option"
  transformedImageBucketName :: "string option"
  transformedImageCacheTTL :: "string option"
  secretKey :: "string option"
  logTiming :: "string option"

record s3_object =
  Body :: bytes
  ContentType :: "string option"

record putObject_params =
  put_Body :: bytes
  put_Bucket :: string
  put_Key :: string
  put_ContentType :: string
  put_Metadata_cache_control :: "string option"

record resizingOptions =
  width :: "int option"
  height :: "int option"

text \<open>
  The object store and the image library are parameters of the model. \<open>Inl\<close> is the error a
  call rejects or throws with. \<open>sharp_toBuffer\<close> stands for the chain
  \<^verbatim>\<open>resize(resizingOptions)\<close>, \<^verbatim>\<open>toFormat(format, {quality})\<close>,
  \<^verbatim>\<open>toBuffer()\<close> on the image built from the given bytes: the three calls sit in one
  \<^verbatim>\<open>try\<close> block, so a throw of any of them has the same effect.
\<close>

record world =
  s3_getObject :: "string option \<Rightarrow> string \<Rightarrow> string + s3_object"
  s3_putObject :: "putObject_params \<Rightarrow> string + unit"
  sharp_metadata :: "bytes \<Rightarrow> string + unit"
  sharp_toBuffer :: "bytes \<Rightarrow> resizingOptions \<Rightarrow> string \<Rightarrow> int option \<Rightarrow> string + bytes"

text \<open>What a call does to the outside, in order.\<close>

datatype logarg = LStr string | LErr string | LEvent event

datatype effect =
    GetObject "string option" string
  | Transform resizingOptions string "int option"
  | PutObject putObject_params
  | ConsoleLog "logarg list"
  | ConsoleLogTiming

definition truthy :: "string option \<Rightarrow> bool" where
  "truthy v = (case v of None \<Rightarrow> False | Some s \<Rightarrow> s \<noteq> [])"

definition sendError :: "jsval \<Rightarrow> string \<Rightarrow> logarg \<Rightarrow> response \<times> effect list" where
  "sendError statusCode' body' error =
     (\<lparr>statusCode = JNum 200, body = body', isBase64Encoded = None, response_headers = None\<rparr>,
      [ConsoleLog [LStr ''APPLICATION ERROR'', LStr body'], ConsoleLog [error]])"

subsection \<open>The preset switch\<close>

text \<open>
  The statement lists of the \<^verbatim>\<open>switch\<close> on the preset. The last one carries two labels,
  \<^verbatim>\<open>case ALLOWED_PRESETS.xlarge_wide\<close> and \<^verbatim>\<open>default\<close>.
\<close>

datatype preset_branch =
    case_icon | case_thumb | case_large | case_medium | case_small | case_xlarge
  | case_icon_wide | case_thumb_wide | case_large_wide | case_medium_wide | case_small_wide
  | case_doordash | case_xlarge_wide_default

definition preset_case :: "string \<Rightarrow> preset_branch" where
  "preset_case preset =
     (if preset = ''icon'' then case_icon
      else if preset = ''thumb'' then case_thumb
      else if preset = ''large'' then case_large
      else if preset = ''medium'' then case_medium
      else if preset = ''small'' then case_small
      else if preset = ''xlarge'' then case_xlarge
      else if preset = ''icon_wide'' then case_icon_wide
      else if preset = ''thumb_wide'' then case_thumb_wide
      else if preset = ''large_wide'' then case_large_wide
      else if preset = ''medium_wide'' then case_medium_wide
      else if preset = ''small_wide'' then case_small_wide
      else if preset = ''doordash'' then case_doordash
      else if preset = ''xlarge_wide'' then case_xlarge_wide_default
      else case_xlarge_wide_default)"

fun preset_body :: "preset_branch \<Rightarrow> resizingOptions \<times> string \<times> string" where
  "preset_body case_icon = (\<lparr>width = Some 32, height = Some 32\<rparr>, ''jpeg'', ''10'')"
| "preset_body case_thumb = (\<lparr>width = Some 50, height = Some 50\<rparr>, ''jpeg'', ''20'')"
| "preset_body case_large = (\<lparr>width = Some 1024, height = Some 1024\<rparr>, ''jpeg'', ''80'')"
| "preset_body case_medium = (\<lparr>width = Some 512, height = Some 512\<rparr>, ''jpeg'', ''70'')"
| "preset_body case_small = (\<lparr>width = Some 256, height = Some 256\<rparr>, ''jpeg'', ''50'')"
| "preset_body case_xlarge = (\<lparr>width = Some 2048, height = Some 2048\<rparr>, ''jpeg'', ''90'')"
| "preset_body case_icon_wide = (\<lparr>width = Some 32, height = Some 18\<rparr>, ''jpeg'', ''10'')"
| "preset_body case_thumb_wide = (\<lparr>width = Some 50, height = Some 28\<rparr>, ''jpeg'', ''20'')"
| "preset_body case_large_wide = (\<lparr>width = Some 1024, height = Some 576\<rparr>, ''jpeg'', ''80'')"
| "preset_body case_medium_wide = (\<lparr>width = Some 512, height = Some 288\<rparr>, ''jpeg'', ''70'')"
| "preset_body case_small_wide = (\<lparr>width = Some 256, height = Some 144\<rparr>, ''jpeg'', ''50'')"
| "preset_body case_doordash = (\<lparr>width = Some 1400, height = Some 788\<rparr>, ''jpeg'', ''70'')"
| "preset_body case_xlarge_wide_default = (\<lparr>width = Some 2048, height = Some 1152\<rparr>, ''jpeg'', ''80'')"

text \<open>The case label that leads to each statement list; the last one also has \<^verbatim>\<open>default\<close>.\<close>

fun branch_label :: "preset_branch \<Rightarrow> string" where
  "branch_label case_icon = ''icon''"
| "branch_label case_thumb = ''thumb''"
| "branch_label case_large = ''large''"
| "branch_label case_medium = ''medium''"
| "branch_label case_small = ''small''"
| "branch_label case_xlarge = ''xlarge''"
| "branch_label case_icon_wide = ''icon_wide''"
| "branch_label case_thumb_wide = ''thumb_wide''"
| "branch_label case_large_wide = ''large_wide''"
| "branch_label case_medium_wide = ''medium_wide''"
| "branch_label case_small_wide = ''small_wide''"
| "branch_label case_doordash = ''doordash''"
| "branch_label case_xlarge_wide_default = ''xlarge_wide''"

text \<open>
  Lines 62 to 148: the defaults, and the switch when \<^verbatim>\<open>operationsJSON['preset']\<close> is
  truthy. The result is (resizingOptions, format, quality).
\<close>

definition resolve_operations ::
  "(string \<Rightarrow> string option option) \<Rightarrow> resizingOptions \<times> string \<times> string" where
  "resolve_operations operationsJSON =
     (let format = ''jpeg''; quality = ''80''; resizingOptions = \<lparr>width = None, height = None\<rparr> in
      case operationsJSON ''preset'' of
        Some (Some preset) \<Rightarrow>
          (if preset \<noteq> [] then preset_body (preset_case preset)
           else (resizingOptions, format, quality))
      | _ \<Rightarrow> (resizingOptions, format, quality))"

subsection \<open>The format switch\<close>

text \<open>The result is (contentType, isLossy).\<close>

definition format_switch :: "string \<Rightarrow> string \<times> bool" where
  "format_switch format =
     (if format = ''jpeg'' then (''image/jpeg'', True)
      else if format = ''jpg'' then (''image/jpg'', True)
      else if format = ''gif'' then (''image/gif'', False)
      else if format = ''webp'' then (''image/webp'', True)
      else if format = ''png'' then (''image/png'', False)
      else if format = ''avif'' then (''image/avif'', True)
      else (''image/jpeg'', True))"


subsection \<open>The handler\<close>

text \<open>
  The \<^verbatim>\<open>try\<close> block of lines 61 to 187 on the bytes of the original image. The result is
  the error caught, or the transformed bytes with the content type.
\<close>

definition transform ::
  "world \<Rightarrow> bytes \<Rightarrow> (string \<Rightarrow> string option option) \<Rightarrow> (string + bytes \<times> string) \<times> effect list" where
  "transform w originalBody operationsJSON =
     (case resolve_operations operationsJSON of (resizingOptions, format, quality) \<Rightarrow>
        (case format_switch format of (contentType, isLossy) \<Rightarrow>
           (case sharp_toBuffer w originalBody resizingOptions format (parseInt quality) of
              Inl error \<Rightarrow> (Inl error, [Transform resizingOptions format (parseInt quality)])
            | Inr transformedImage \<Rightarrow>
                (Inr (transformedImage, contentType),
                 [Transform resizingOptions format (parseInt quality)]))))"

text \<open>Lines 191 to 205: the upload to the bucket of transformed images.\<close>

definition upload :: "env \<Rightarrow> world \<Rightarrow> bytes \<Rightarrow> string \<Rightarrow> string \<Rightarrow> string \<Rightarrow> effect list" where
  "upload e w transformedImage originalImagePath operationsPrefix contentType =
     (case transformedImageBucketName e of
        None \<Rightarrow> []
      | Some bucket \<Rightarrow>
          if bucket = [] then []
          else
            (let params = \<lparr>put_Body = transformedImage, put_Bucket = bucket,
                            put_Key = originalImagePath @ ''/'' @ operationsPrefix,
                            put_ContentType = contentType,
                            put_Metadata_cache_control = transformedImageCacheTTL e\<rparr>
             in case s3_putObject w params of
                  Inl error \<Rightarrow>
                    PutObject params #
                    snd (sendError (JStr ''APPLICATION ERROR'')
                           ''Could not upload transformed image to S3'' (LErr error))
                | Inr _ \<Rightarrow> [PutObject params]))"

definition image_processing_handler :: "env \<Rightarrow> world \<Rightarrow> event \<Rightarrow> response outcome \<times> effect list" where
  "image_processing_handler e w event =
     (case requestContext_http event of
        None \<Rightarrow> (Threw ''TypeError'', [])
      | Some h \<Rightarrow>
          (let imagePathArray = split CHR ''/'' (path h);
               operationsPrefix = last imagePathArray;
               originalImagePath = join ''/'' (tl (butlast imagePathArray));
               fetch = [GetObject (originalImageBucketName e) originalImagePath]
           in case s3_getObject w (originalImageBucketName e) originalImagePath of
                Inl error \<Rightarrow>
                  (case sendError (JNum 500) ''error downloading original image'' (LErr error) of
                     (r, logged) \<Rightarrow> (Returned r, fetch @ logged))
              | Inr originalImage \<Rightarrow>
                  (case sharp_metadata w (Body originalImage) of
                     Inl error \<Rightarrow> (Threw error, fetch)
                   | Inr imageMetadata \<Rightarrow>
                       (let operationsJSON =
                              fromEntries (map (split CHR ''='') (split CHR '','' operationsPrefix))
                        in case transform w (Body originalImage) operationsJSON of
                             (Inl error, fx) \<Rightarrow>
                               (case sendError (JNum 500) ''error transforming image'' (LErr error) of
                                  (r, logged) \<Rightarrow> (Returned r, fetch @ fx @ logged))
                           | (Inr (transformedImage, contentType), fx) \<Rightarrow>
                               (let up = upload e w transformedImage originalImagePath
                                           operationsPrefix contentType;
                                    timing = (if logTiming e = Some ''true''
                                              then [ConsoleLogTiming] else [])
                                in (Returned
                                      \<lparr>statusCode = JNum 200,
                                         body = base64 transformedImage,
                                         isBase64Encoded = Some True,
                                         response_headers =
                                           Some [(''Content-Type'', Some contentType),
                                                 (''Cache-Control'', transformedImageCacheTTL e)]\<rparr>,
                                    fetch @ fx @ up @ timing))))))"

section \<open>The second version of the Transformation Engine: unnamed/part_000\<close>

text \<open>
  This file checks the shared secret and the method first, has no \<^verbatim>\<open>icon\<close>,
  \<^verbatim>\<open>icon_wide\<close> and \<^verbatim>\<open>thumb_wide\<close> presets, writes no timing line, and its
  \<^verbatim>\<open>sendError\<close> returns the status code it is given. The store and the image library
  are the same parameters as above, but the file reaches the store through the client of
  \<^verbatim>\<open>@aws-sdk/client-s3\<close>.
\<close>

definition sendError_v2 :: "jsval \<Rightarrow> string \<Rightarrow> logarg \<Rightarrow> response \<times> effect list" where
  "sendError_v2 statusCode' body' error =
     (\<lparr>statusCode = statusCode', body = body', isBase64Encoded = None, response_headers = None\<rparr>,
      [ConsoleLog [LStr ''APPLICATION ERROR'', LStr body'], ConsoleLog [error]])"

definition preset_switch_v2 :: "string \<Rightarrow> resizingOptions \<times> string \<times> string" where
  "preset_switch_v2 preset =
     (if preset = ''thumb'' then (\<lparr>width = Some 50, height = Some 50\<rparr>, ''jpeg'', ''20'')
      else if preset = ''large'' then (\<lparr>width = Some 1024, height = Some 1024\<rparr>, ''jpeg'', ''80'')
      else if preset = ''medium'' then (\<lparr>width = Some 512, height = Some 512\<rparr>, ''jpeg'', ''70'')
      else if preset = ''small'' then (\<lparr>width = Some 256, height = Some 256\<rparr>, ''jpeg'', ''50'')
      else if preset = ''xlarge'' then (\<lparr>width = Some 2048, height = Some 2048\<rparr>, ''jpeg'', ''90'')
      else if preset = ''large_wide'' then (\<lparr>width = Some 1024, height = Some 576\<rparr>, ''jpeg'', ''80'')
      else if preset = ''medium_wide'' then (\<lparr>width = Some 512, height = Some 288\<rparr>, ''jpeg'', ''70'')
      else if preset = ''small_wide'' then (\<lparr>width = Some 256, height = Some 144\<rparr>, ''jpeg'', ''50'')
      else if preset = ''doordash'' then (\<lparr>width = Some 1400, height = Some 788\<rparr>, ''jpeg'', ''70'')
      else (\<lparr>width = Some 2048, height = Some 1152\<rparr>, ''jpeg'', ''80''))"

definition resolve_operations_v2 ::
  "(string \<Rightarrow> string option option) \<Rightarrow> resizingOptions \<times> string \<times> string" where
  "resolve_operations_v2 operationsJSON =
     (let format = ''jpeg''; quality = ''80''; resizingOptions = \<lparr>width = None, height = None\<rparr> in
      case operationsJSON ''preset'' of
        Some (Some preset) \<Rightarrow>
          (if preset \<noteq> [] then preset_switch_v2 preset
           else (resizingOptions, format, quality))
      | _ \<Rightarrow> (resizingOptions, format, quality))"

definition format_switch_v2 :: "string \<Rightarrow> string \<times> bool" where
  "format_switch_v2 format =
     (if format = ''jpeg'' then (''image/jpeg'', True)
      else if format = ''jpg'' then (''image/jpg'', True)
      else if format = ''gif'' then (''image/gif'', False)
      else if format = ''webp'' then (''image/webp'', True)
      else if format = ''png'' then (''image/png'', False)
      else if format = ''avif'' then (''image/avif'', True)
      else (''image/jpeg'', True))"

definition transform_v2 ::
  "world \<Rightarrow> bytes \<Rightarrow> (string \<Rightarrow> string option option) \<Rightarrow> (string + bytes \<times> string) \<times> effect list" where
  "transform_v2 w originalBody operationsJSON =
     (case resolve_operations_v2 operationsJSON of (resizingOptions, format, quality) \<Rightarrow>
        (case format_switch_v2 format of (contentType, isLossy) \<Rightarrow>
           (case sharp_toBuffer w originalBody resizingOptions format (parseInt quality) of
              Inl error \<Rightarrow> (Inl error, [Transform resizingOptions format (parseInt quality)])
            | Inr transformedImage \<Rightarrow>
                (Inr (transformedImage, contentType),
                 [Transform resizingOptions format (parseInt quality)]))))"

definition upload_v2 :: "env \<Rightarrow> world \<Rightarrow> bytes \<Rightarrow> string \<Rightarrow> string \<Rightarrow> string \<Rightarrow> effect list" where
  "upload_v2 e w transformedImage originalImagePath operationsPrefix contentType =
     (case transformedImageBucketName e of
        None \<Rightarrow> []
      | Some bucket \<Rightarrow>
          if bucket = [] then []
          else
            (let params = \<lparr>put_Body = transformedImage, put_Bucket = bucket,
                            put_Key = originalImagePath @ ''/'' @ operationsPrefix,
                            put_ContentType = contentType,
                            put_Metadata_cache_control = transformedImageCacheTTL e\<rparr>
             in case s3_putObject w params of
                  Inl error \<Rightarrow>
                    PutObject params #
                    snd (sendError_v2 (JStr ''APPLICATION ERROR'')
                           ''Could not upload transformed image to S3'' (LErr error))
                | Inr _ \<Rightarrow> [PutObject params]))"

text \<open>
  Line 56, \<^verbatim>\<open>S3Instance.getObject({...}).promise()\<close>. With the client of
  \<^verbatim>\<open>@aws-sdk/client-s3\<close> the call of \<^verbatim>\<open>getObject\<close> sends the request and returns a
  Promise; a Promise has no method \<^verbatim>\<open>promise\<close>, so the call of it throws a
  \<^verbatim>\<open>TypeError\<close> inside the \<^verbatim>\<open>try\<close> block, whatever the store holds.
\<close>

definition getObject_promise_v3 :: "world \<Rightarrow> string option \<Rightarrow> string \<Rightarrow> string + s3_object" where
  "getObject_promise_v3 w bucket key =
     Inl ''TypeError: S3Instance.getObject(...).promise is not a function''"

text \<open>
  Lines 61 to 200: what the handler does with an original image once it holds one. The
  effects are those after the fetch.
\<close>

definition after_fetch_v2 ::
  "env \<Rightarrow> world \<Rightarrow> s3_object \<Rightarrow> string \<Rightarrow> string \<Rightarrow> response outcome \<times> effect list" where
  "after_fetch_v2 e w originalImage originalImagePath operationsPrefix =
     (case sharp_metadata w (Body originalImage) of
        Inl error \<Rightarrow> (Threw error, [])
      | Inr imageMetadata \<Rightarrow>
          (let operationsJSON =
                 fromEntries (map (split CHR ''='') (split CHR '','' operationsPrefix))
           in case transform_v2 w (Body originalImage) operationsJSON of
                (Inl error, fx) \<Rightarrow>
                  (case sendError_v2 (JNum 500) ''error transforming image'' (LErr error) of
                     (r, logged) \<Rightarrow> (Returned r, fx @ logged))
              | (Inr (transformedImage, contentType), fx) \<Rightarrow>
                  (let up = upload_v2 e w transformedImage originalImagePath
                              operationsPrefix contentType
                   in (Returned
                         \<lparr>statusCode = JNum 200,
                            body = base64 transformedImage,
                            isBase64Encoded = Some True,
                            response_headers =
                              Some [(''Content-Type'', Some contentType),
                                    (''Cache-Control'', transformedImageCacheTTL e)]\<rparr>,
                       fx @ up))))"

definition image_processing_handler_v2 ::
  "env \<Rightarrow> world \<Rightarrow> event \<Rightarrow> response outcome \<times> effect list" where
  "image_processing_handler_v2 e w event =
     (if \<not> truthy (map_of (headers event) ''x-origin-secret-header'')
         \<or> \<not> (map_of (headers event) ''x-origin-secret-header'' = secretKey e)
      then (case sendError_v2 (JNum 403) ''Request unauthorized'' (LEvent event) of
              (r, logged) \<Rightarrow> (Returned r, logged))
      else
        (case requestContext_http event of
           None \<Rightarrow>
             (case sendError_v2 (JNum 400) ''Only GET method is supported'' (LEvent event) of
                (r, logged) \<Rightarrow> (Returned r, logged))
         | Some h \<Rightarrow>
             if \<not> (http_method h = ''GET'')
             then (case sendError_v2 (JNum 400) ''Only GET method is supported'' (LEvent event) of
                     (r, logged) \<Rightarrow> (Returned r, logged))
             else
               (let imagePathArray = split CHR ''/'' (path h);
                    operationsPrefix = last imagePathArray;
                    originalImagePath = join ''/'' (tl (butlast imagePathArray));
                    fetch = [GetObject (originalImageBucketName e) originalImagePath]
                in case getObject_promise_v3 w (originalImageBucketName e) originalImagePath of
                     Inl error \<Rightarrow>
                       (case sendError_v2 (JNum 500) ''error downloading original image''
                               (LErr error) of
                          (r, logged) \<Rightarrow> (Returned r, fetch @ logged))
                   | Inr originalImage \<Rightarrow>
                       (case after_fetch_v2 e w originalImage originalImagePath
                               operationsPrefix of
                          (result, fx) \<Rightarrow> (result, fetch @ fx)))))"

section \<open>Observations and sample data for the theorems\<close>

text \<open>A header of a response; \<open>None\<close> when the response has no such header or no value for it.\<close>

definition header :: "response \<Rightarrow> string \<Rightarrow> string option" where
  "header r name =
     (case response_headers r of
        None \<Rightarrow> None
      | Some hs \<Rightarrow> (case map_of hs name of None \<Rightarrow> None | Some v \<Rightarrow> v))"


fun is_Transform :: "effect \<Rightarrow> bool" where
  "is_Transform (Transform r f q) = True"
| "is_Transform _ = False"

fun is_PutObject :: "effect \<Rightarrow> bool" where
  "is_PutObject (PutObject p) = True"
| "is_PutObject _ = False"

text \<open>
  A store that holds one image and rejects every upload, an image library that always
  succeeds, and a configuration with both buckets.
\<close>

definition sample_world :: world where
  "sample_world =
     \<lparr>s3_getObject = (\<lambda>bucket key.
          if bucket = Some ''original-images'' \<and> key = ''images/rio/1.jpeg''
          then Inr \<lparr>Body = [77], ContentType = Some ''image/png''\<rparr>
          else Inl ''NoSuchKey''),
       s3_putObject = (\<lambda>params. Inl ''AccessDenied''),
       sharp_metadata = (\<lambda>input. Inr ()),
       sharp_toBuffer = (\<lambda>input resizingOptions format quality. Inr (input @ [97, 110]))\<rparr>"

definition sample_env :: env where
  "sample_env =
     \<lparr>originalImageBucketName = Some ''original-images'',
       transformedImageBucketName = Some ''transformed-images'',
       transformedImageCacheTTL = Some ''max-age=31622400'',
       secretKey = Some ''s3cr3t'',
       logTiming = Some ''false''\<rparr>"

definition sample_event :: "string \<Rightarrow> event" where
  "sample_event p =
     \<lparr>headers = [(''x-origin-secret-header'', ''s3cr3t'')],
       requestContext_http = Some \<lparr>http_method = ''GET'', path = p\<rparr>\<rparr>"

section \<open>The Normalizer rewrites the path\<close>

subsection \<open>The loop over the query parameters\<close>

lemma toLowerCase_Nil_iff: "toLowerCase v = [] \<longleftrightarrow> v = []"
  by (simp add: toLowerCase_def)

lemma Nil_not_allowed: "[] \<notin> set ALLOWED_PRESETS"
  by (simp add: ALLOWED_PRESETS_def)

lemma allowed_nonempty: "toLowerCase v \<in> set ALLOWED_PRESETS \<Longrightarrow> v \<noteq> []"
  using Nil_not_allowed by (auto simp: toLowerCase_def)

lemma operation_step_accepted:
  "toLowerCase n = ''preset'' \<Longrightarrow> toLowerCase v \<in> set ALLOWED_PRESETS \<Longrightarrow>
   operation_step ops (n, v) = assign ops ''preset'' (toLowerCase v)"
  using allowed_nonempty [of v] by (simp add: operation_step_def)

lemma operation_step_dropped:
  "toLowerCase n \<noteq> ''preset'' \<or> toLowerCase v \<notin> set ALLOWED_PRESETS \<Longrightarrow>
   operation_step ops (n, v) = ops"
  by (auto simp: operation_step_def)

lemma foldl_operation_step_dropped:
  "\<forall>(n, v) \<in> set qs. toLowerCase n \<noteq> ''preset'' \<or> toLowerCase v \<notin> set ALLOWED_PRESETS \<Longrightarrow>
   foldl operation_step ops qs = ops"
proof (induction qs arbitrary: ops)
  case Nil
  then show ?case by simp
next
  case (Cons kv qs)
  obtain n v where kv: "kv = (n, v)" by (cases kv)
  from Cons.prems kv have "operation_step ops kv = ops"
    by (simp add: operation_step_dropped)
  with Cons show ?case by simp
qed

lemma foldl_operation_step_agree:
  assumes "\<forall>(n, v) \<in> set qs. toLowerCase n = ''preset'' \<and> toLowerCase v \<in> set ALLOWED_PRESETS
             \<longrightarrow> toLowerCase v = p"
  shows "foldl operation_step [(''preset'', p)] qs = [(''preset'', p)]"
  using assms
proof (induction qs)
  case Nil
  then show ?case by simp
next
  case (Cons kv qs)
  obtain n v where kv: "kv = (n, v)" by (cases kv)
  have "operation_step [(''preset'', p)] kv = [(''preset'', p)]"
  proof (cases "toLowerCase n = ''preset'' \<and> toLowerCase v \<in> set ALLOWED_PRESETS")
    case True
    with Cons.prems kv have "toLowerCase v = p" by simp
    with True kv show ?thesis by (simp add: operation_step_accepted)
  next
    case False
    with kv show ?thesis by (simp add: operation_step_dropped)
  qed
  with Cons show ?case by simp
qed

lemma foldl_operation_step_found:
  assumes "(name, val) \<in> set qs" "toLowerCase name = ''preset''"
    "toLowerCase val \<in> set ALLOWED_PRESETS"
    and "\<forall>(n, v) \<in> set qs. toLowerCase n = ''preset'' \<and> toLowerCase v \<in> set ALLOWED_PRESETS
             \<longrightarrow> toLowerCase v = toLowerCase val"
  shows "foldl operation_step [] qs = [(''preset'', toLowerCase val)]"
  using assms
proof (induction qs)
  case Nil
  then show ?case by simp
next
  case (Cons kv qs)
  obtain n v where kv: "kv = (n, v)" by (cases kv)
  show ?case
  proof (cases "toLowerCase n = ''preset'' \<and> toLowerCase v \<in> set ALLOWED_PRESETS")
    case True
    with Cons.prems(4) kv have "toLowerCase v = toLowerCase val" by simp
    with True kv have "operation_step [] kv = [(''preset'', toLowerCase val)]"
      by (simp add: operation_step_accepted)
    moreover have "foldl operation_step [(''preset'', toLowerCase val)] qs = [(''preset'', toLowerCase val)]"
      using Cons.prems(4) by (intro foldl_operation_step_agree) simp
    ultimately show ?thesis by simp
  next
    case False
    with kv have "operation_step [] kv = []" by (simp add: operation_step_dropped)
    moreover from False kv Cons.prems have "(name, val) \<in> set qs" by auto
    ultimately show ?thesis using Cons by simp
  qed
qed

lemma handler_uri_preset:
  assumes "foldl operation_step [] qs = [(''preset'', p)]" "p \<noteq> []"
  shows "uri (handler (r\<lparr>querystring := Some qs\<rparr>)) = uri r @ ''/preset='' @ p"
  using assms by (simp add: handler_def)

lemma handler_uri_original:
  assumes "foldl operation_step [] qs = []"
  shows "uri (handler (r\<lparr>querystring := Some qs\<rparr>)) = uri r @ ''/original''"
  using assms by (simp add: handler_def)

lemma lower_samples:
  "toLowerCase ''PreSet'' = ''preset''" "toLowerCase ''MEDIUM'' = ''medium''"
  "toLowerCase ''width'' = ''width''" "toLowerCase ''100'' = ''100''"
  "toLowerCase ''preset'' = ''preset''" "toLowerCase ''PRESET'' = ''preset''"
  "toLowerCase ''small'' = ''small''" "toLowerCase ''large'' = ''large''"
  "toLowerCase ''huge'' = ''huge''" "toLowerCase ''format'' = ''format''"
  "toLowerCase ''auto'' = ''auto''" "toLowerCase ''medium'' = ''medium''"
  by code_simp+

subsection \<open>An accepted preset\<close>

text \<open>
  Claim C1, as the code has it. A request has a query parameter whose lower-cased name is
  \<open>preset\<close> and whose lower-cased value \<open>p\<close> is in the allow-list, and every accepted
  preset parameter of the request has that same lower-cased value. Then the handler rewrites
  the uri to the original path followed by \<open>/preset=p\<close>, and every other query string
  with the same parameters up to the case of names and values, in any order, gives the
  same uri.
\<close>

theorem normalizer_preset:
  assumes "querystring request = Some qs"
    and "(name, val) \<in> set qs" "toLowerCase name = ''preset''"
    "toLowerCase val \<in> set ALLOWED_PRESETS"
    and "\<forall>(n, v) \<in> set qs. toLowerCase n = ''preset'' \<and> toLowerCase v \<in> set ALLOWED_PRESETS
             \<longrightarrow> toLowerCase v = toLowerCase val"
  shows "uri (handler request) = uri request @ ''/preset='' @ toLowerCase val
    \<and> (\<forall>qs'. (\<lambda>(n, v). (toLowerCase n, toLowerCase v)) ` set qs'
               = (\<lambda>(n, v). (toLowerCase n, toLowerCase v)) ` set qs
          \<longrightarrow> uri (handler (request\<lparr>querystring := Some qs'\<rparr>)) = uri (handler request))"
proof -
  let ?low = "\<lambda>(n, v). (toLowerCase n, toLowerCase v)"
  let ?p = "toLowerCase val"
  have r: "request = request\<lparr>querystring := Some qs\<rparr>" using assms(1) by simp
  have ne: "?p \<noteq> []" using assms(4) Nil_not_allowed by auto
  have "uri (handler (request\<lparr>querystring := Some qs\<rparr>)) = uri request @ ''/preset='' @ ?p"
    using foldl_operation_step_found [OF assms(2-5)] ne by (rule handler_uri_preset)
  with r have one: "uri (handler request) = uri request @ ''/preset='' @ ?p" by simp
  have "uri (handler (request\<lparr>querystring := Some qs'\<rparr>)) = uri request @ ''/preset='' @ ?p"
    if eq: "?low ` set qs' = ?low ` set qs" for qs'
  proof -
    from assms(2) have "?low (name, val) \<in> ?low ` set qs'" unfolding eq by (rule imageI)
    then obtain n' v' where in': "(n', v') \<in> set qs'" and n': "toLowerCase n' = toLowerCase name"
      and v': "toLowerCase v' = ?p" by auto
    have agree: "\<forall>(n, v) \<in> set qs'. toLowerCase n = ''preset'' \<and> toLowerCase v \<in> set ALLOWED_PRESETS
             \<longrightarrow> toLowerCase v = toLowerCase v'"
    proof (clarify)
      fix n v assume nv: "(n, v) \<in> set qs'" "toLowerCase n = ''preset''" "toLowerCase v \<in> set ALLOWED_PRESETS"
      from nv(1) have "?low (n, v) \<in> ?low ` set qs" unfolding eq [symmetric] by (rule imageI)
      then obtain n0 v0 where "(n0, v0) \<in> set qs" "toLowerCase n0 = toLowerCase n" "toLowerCase v0 = toLowerCase v"
        by auto
      with assms(5) nv have "toLowerCase v = ?p" by fastforce
      with v' show "toLowerCase v = toLowerCase v'" by simp
    qed
    have "foldl operation_step [] qs' = [(''preset'', toLowerCase v')]"
      using in' _ _ agree by (rule foldl_operation_step_found) (simp_all add: n' v' assms)
    then show ?thesis using ne v' by (simp add: handler_uri_preset)
  qed
  with one show ?thesis by simp
qed

text \<open>
  The theorem for C1 at the request \<open>?width=100&PreSet=MEDIUM\<close> and at a reordered,
  lower-cased spelling of it.
\<close>

theorem normalizer_preset_witness:
  "uri (handler \<lparr>uri = ''/images/rio/1.jpeg'',
                  querystring = Some [(''width'', ''100''), (''PreSet'', ''MEDIUM'')]\<rparr>)
     = ''/images/rio/1.jpeg/preset=medium''
   \<and> uri (handler \<lparr>uri = ''/images/rio/1.jpeg'',
                  querystring = Some [(''preset'', ''medium''), (''width'', ''100'')]\<rparr>)
     = ''/images/rio/1.jpeg/preset=medium''"
proof -
  let ?qs = "[(''width'', ''100''), (''PreSet'', ''MEDIUM'')]"
  let ?qs' = "[(''preset'', ''medium''), (''width'', ''100'')]"
  let ?r = "\<lparr>uri = ''/images/rio/1.jpeg'', querystring = Some ?qs\<rparr>"
  have h1: "querystring ?r = Some ?qs" by simp
  have h2: "(''PreSet'', ''MEDIUM'') \<in> set ?qs" by simp
  have h3: "toLowerCase ''PreSet'' = ''preset''" by (simp add: lower_samples)
  have h4: "toLowerCase ''MEDIUM'' \<in> set ALLOWED_PRESETS"
    by (simp add: lower_samples ALLOWED_PRESETS_def)
  have h5: "\<forall>(n, v) \<in> set ?qs. toLowerCase n = ''preset'' \<and> toLowerCase v \<in> set ALLOWED_PRESETS
              \<longrightarrow> toLowerCase v = toLowerCase ''MEDIUM''"
    by (simp add: lower_samples)
  have perm: "(\<lambda>(n, v). (toLowerCase n, toLowerCase v)) ` set ?qs'
                = (\<lambda>(n, v). (toLowerCase n, toLowerCase v)) ` set ?qs"
    by (auto simp add: lower_samples)
  note inst = normalizer_preset [OF h1 h2 h3 h4 h5]
  from inst have a: "uri (handler ?r) = ''/images/rio/1.jpeg/preset=medium''"
    by (simp add: lower_samples)
  from inst perm have "uri (handler (?r\<lparr>querystring := Some ?qs'\<rparr>)) = uri (handler ?r)"
    by blast
  with a show ?thesis by simp
qed

text \<open>
  Claim C1 as stated fails when two spellings of the name carry different allow-listed
  values, as in \<open>?preset=small&PRESET=large\<close>: the parameter \<open>preset=small\<close> is
  accepted, yet the uri ends in \<open>/preset=large\<close>, since the later assignment overwrites
  the earlier one; and swapping the two parameters changes the uri.
\<close>

theorem normalizer_preset_counterexample:
  "(''preset'', ''small'') \<in> set [(''preset'', ''small''), (''PRESET'', ''large'')]
   \<and> toLowerCase ''preset'' = ''preset''
   \<and> toLowerCase ''small'' \<in> set ALLOWED_PRESETS
   \<and> uri (handler \<lparr>uri = ''/images/rio/1.jpeg'',
                    querystring = Some [(''preset'', ''small''), (''PRESET'', ''large'')]\<rparr>)
       \<noteq> ''/images/rio/1.jpeg'' @ ''/preset='' @ toLowerCase ''small''
   \<and> uri (handler \<lparr>uri = ''/images/rio/1.jpeg'',
                    querystring = Some [(''preset'', ''small''), (''PRESET'', ''large'')]\<rparr>)
       \<noteq> uri (handler \<lparr>uri = ''/images/rio/1.jpeg'',
                    querystring = Some [(''PRESET'', ''large''), (''preset'', ''small'')]\<rparr>)"
  by (simp add: handler_def operation_step_def lower_samples ALLOWED_PRESETS_def)

subsection \<open>No accepted parameter\<close>

text \<open>
  Claim C7. When the request has no query string, or none of its parameters is accepted
  (each has a name other than \<open>preset\<close>, in any case, or a value outside the allow-list),
  the uri becomes the original path followed by \<open>/original\<close>; and in every case the
  outgoing request has the empty query string.
\<close>

theorem normalizer_original:
  "(querystring request = None
      \<or> (\<exists>qs. querystring request = Some qs
            \<and> (\<forall>(n, v) \<in> set qs. toLowerCase n \<noteq> ''preset''
                                    \<or> toLowerCase v \<notin> set ALLOWED_PRESETS))
     \<longrightarrow> uri (handler request) = uri request @ ''/original'')
   \<and> querystring (handler request) = Some []"
proof (intro conjI impI)
  show "querystring (handler request) = Some []"
    by (simp add: handler_def Let_def split: option.split)
next
  assume "querystring request = None
      \<or> (\<exists>qs. querystring request = Some qs
            \<and> (\<forall>(n, v) \<in> set qs. toLowerCase n \<noteq> ''preset''
                                    \<or> toLowerCase v \<notin> set ALLOWED_PRESETS))"
  then show "uri (handler request) = uri request @ ''/original''"
  proof
    assume "querystring request = None"
    then show ?thesis by (simp add: handler_def)
  next
    assume "\<exists>qs. querystring request = Some qs
            \<and> (\<forall>(n, v) \<in> set qs. toLowerCase n \<noteq> ''preset''
                                    \<or> toLowerCase v \<notin> set ALLOWED_PRESETS)"
    then obtain qs where qs: "querystring request = Some qs"
      and none: "\<forall>(n, v) \<in> set qs. toLowerCase n \<noteq> ''preset''
                                    \<or> toLowerCase v \<notin> set ALLOWED_PRESETS" by blast
    from none have "foldl operation_step [] qs = []" by (rule foldl_operation_step_dropped)
    then have "uri (handler (request\<lparr>querystring := Some qs\<rparr>)) = uri request @ ''/original''"
      by (rule handler_uri_original)
    moreover have "request\<lparr>querystring := Some qs\<rparr> = request" using qs by simp
    ultimately show ?thesis by simp
  qed
qed

text \<open>
  The theorem for C7 at \<open>?format=auto&preset=huge\<close>, at a request without query
  string, and at an accepted preset.
\<close>

theorem normalizer_original_witness:
  "uri (handler \<lparr>uri = ''/images/rio/1.jpeg'',
                  querystring = Some [(''format'', ''auto''), (''preset'', ''huge'')]\<rparr>)
     = ''/images/rio/1.jpeg/original''
   \<and> uri (handler \<lparr>uri = ''/images/rio/1.jpeg'', querystring = None\<rparr>)
     = ''/images/rio/1.jpeg/original''
   \<and> querystring (handler \<lparr>uri = ''/images/rio/1.jpeg'',
                  querystring = Some [(''preset'', ''medium'')]\<rparr>) = Some []"
proof -
  let ?qs = "[(''format'', ''auto''), (''preset'', ''huge'')]"
  have none: "\<forall>(n, v) \<in> set ?qs. toLowerCase n \<noteq> ''preset'' \<or> toLowerCase v \<notin> set ALLOWED_PRESETS"
    by (simp add: lower_samples ALLOWED_PRESETS_def)
  have a: "uri (handler \<lparr>uri = ''/images/rio/1.jpeg'', querystring = Some ?qs\<rparr>)
             = ''/images/rio/1.jpeg/original''"
    using normalizer_original [of "\<lparr>uri = ''/images/rio/1.jpeg'', querystring = Some ?qs\<rparr>"] none
    by simp
  have b: "uri (handler \<lparr>uri = ''/images/rio/1.jpeg'', querystring = None\<rparr>)
             = ''/images/rio/1.jpeg/original''"
    using normalizer_original [of "\<lparr>uri = ''/images/rio/1.jpeg'', querystring = None\<rparr>"]
    by simp
  have c: "querystring (handler \<lparr>uri = ''/images/rio/1.jpeg'',
                  querystring = Some [(''preset'', ''medium'')]\<rparr>) = Some []"
    using normalizer_original [of "\<lparr>uri = ''/images/rio/1.jpeg'',
                  querystring = Some [(''preset'', ''medium'')]\<rparr>"]
    by simp
  from a b c show ?thesis by simp
qed

subsection \<open>Normalizing twice\<close>

text \<open>
  Claim C4 as stated fails: the handler applied to its own output for
  \<open>/images/rio/1.jpeg?preset=medium\<close> appends a second segment.
\<close>

theorem normalizer_idempotent_counterexample:
  "uri (handler (handler \<lparr>uri = ''/images/rio/1.jpeg'',
                           querystring = Some [(''preset'', ''medium'')]\<rparr>))
     = ''/images/rio/1.jpeg/preset=medium/original''
   \<and> uri (handler \<lparr>uri = ''/images/rio/1.jpeg'',
                           querystring = Some [(''preset'', ''medium'')]\<rparr>)
     = ''/images/rio/1.jpeg/preset=medium''
   \<and> uri (handler (handler \<lparr>uri = ''/images/rio/1.jpeg'',
                           querystring = Some [(''preset'', ''medium'')]\<rparr>))
     \<noteq> uri (handler \<lparr>uri = ''/images/rio/1.jpeg'',
                           querystring = Some [(''preset'', ''medium'')]\<rparr>)"
  by (simp add: handler_def operation_step_def lower_samples ALLOWED_PRESETS_def)

text \<open>
  Claim C4, as the code has it. The handler has no guard for a path that already carries a
  descriptor: applied to its own output, whose query string is empty (or after the query
  string has been removed altogether), it appends \<open>/original\<close> once more, so the uri
  always changes.
\<close>

theorem normalizer_reappends_original:
  "uri (handler (handler request)) = uri (handler request) @ ''/original''
   \<and> uri (handler ((handler request)\<lparr>querystring := None\<rparr>)) = uri (handler request) @ ''/original''
   \<and> uri (handler (handler request)) \<noteq> uri (handler request)"
proof -
  have q: "querystring (handler request) = Some []"
    by (simp add: handler_def Let_def split: option.split)
  have "handler request = (handler request)\<lparr>querystring := Some []\<rparr>" using q by simp
  then have "uri (handler (handler request))
      = uri (handler ((handler request)\<lparr>querystring := Some []\<rparr>))" by simp
  also have "\<dots> = uri (handler request) @ ''/original''"
    by (rule handler_uri_original) simp
  finally have a: "uri (handler (handler request)) = uri (handler request) @ ''/original''" .
  have b: "uri (handler ((handler request)\<lparr>querystring := None\<rparr>)) = uri (handler request) @ ''/original''"
    by (simp add: handler_def)
  from a b show ?thesis by simp
qed

section \<open>The Transformation Engine\<close>

subsection \<open>Evaluation of the built-ins and of the sample requests\<close>

lemma split_not_Nil: "split sep s \<noteq> []"
  by (induction s) (auto split: list.splits)

lemma entry_of_key: "e \<noteq> [] \<Longrightarrow> fst (entry_of e) = hd e"
  by (cases e; cases "tl e") (auto simp: entry_of_def)

lemma fromEntries_absent:
  "\<forall>e \<in> set es. fst (entry_of e) \<noteq> k \<Longrightarrow> fromEntries es k = None"
  by (auto simp: fromEntries_def map_of_eq_None_iff)

lemma sample_paths:
  "split CHR ''/'' ''/images/rio/1.jpeg/original'' = ['''', ''images'', ''rio'', ''1.jpeg'', ''original'']"
  "split CHR ''/'' ''/images/rio/1.jpeg/preset=medium'' = ['''', ''images'', ''rio'', ''1.jpeg'', ''preset=medium'']"
  "split CHR ''/'' ''/images/rio/2.jpeg/preset=doordash'' = ['''', ''images'', ''rio'', ''2.jpeg'', ''preset=doordash'']"
  by simp_all

lemma quality_literals:
  "parseInt ''10'' = Some 10" "parseInt ''20'' = Some 20" "parseInt ''50'' = Some 50"
  "parseInt ''70'' = Some 70" "parseInt ''80'' = Some 80" "parseInt ''90'' = Some 90"
  by code_simp+

lemma base64_sample: "base64 [77, 97, 110] = ''TWFu''"
  by (simp add: sextet_def base64_alphabet_def)

lemma original_has_no_preset:
  "\<forall>operation \<in> set (split CHR '','' ''original''). hd (split CHR ''='' operation) \<noteq> ''preset''"
  by simp

lemma resolve_operations_absent:
  "operationsJSON ''preset'' = None \<Longrightarrow>
   resolve_operations operationsJSON = (\<lparr>width = None, height = None\<rparr>, ''jpeg'', ''80'')"
  by (simp add: resolve_operations_def)

lemma transform_absent:
  "operationsJSON ''preset'' = None \<Longrightarrow>
   transform w b operationsJSON =
     (case sharp_toBuffer w b \<lparr>width = None, height = None\<rparr> ''jpeg'' (Some 80) of
        Inl error \<Rightarrow> Inl error
      | Inr transformedImage \<Rightarrow> Inr (transformedImage, ''image/jpeg''),
      [Transform \<lparr>width = None, height = None\<rparr> ''jpeg'' (Some 80)])"
  by (simp add: transform_def resolve_operations_absent format_switch_def quality_literals
      split: sum.split)

lemma upload_no_Transform: "filter is_Transform (upload e w t p d c) = []"
  by (simp add: upload_def sendError_def Let_def split: option.split sum.split)

lemma sample_original:
  "image_processing_handler sample_env sample_world (sample_event ''/images/rio/1.jpeg/original'')
     = (Returned \<lparr>statusCode = JNum 200, body = ''TWFu'', isBase64Encoded = Some True,
                    response_headers = Some [(''Content-Type'', Some ''image/jpeg''),
                                             (''Cache-Control'', Some ''max-age=31622400'')]\<rparr>,
        [GetObject (Some ''original-images'') ''images/rio/1.jpeg'',
         Transform \<lparr>width = None, height = None\<rparr> ''jpeg'' (Some 80),
         PutObject \<lparr>put_Body = [77, 97, 110], put_Bucket = ''transformed-images'',
                     put_Key = ''images/rio/1.jpeg/original'', put_ContentType = ''image/jpeg'',
                     put_Metadata_cache_control = Some ''max-age=31622400''\<rparr>,
         ConsoleLog [LStr ''APPLICATION ERROR'', LStr ''Could not upload transformed image to S3''],
         ConsoleLog [LErr ''AccessDenied'']])"
  by (simp add: image_processing_handler_def sample_env_def sample_world_def sample_event_def
      sample_paths fromEntries_def entry_of_def transform_def resolve_operations_def
      format_switch_def quality_literals upload_def sendError_def base64_sample
      del: base64.simps)

lemma sample_medium:
  "image_processing_handler sample_env sample_world (sample_event ''/images/rio/1.jpeg/preset=medium'')
     = (Returned \<lparr>statusCode = JNum 200, body = ''TWFu'', isBase64Encoded = Some True,
                    response_headers = Some [(''Content-Type'', Some ''image/jpeg''),
                                             (''Cache-Control'', Some ''max-age=31622400'')]\<rparr>,
        [GetObject (Some ''original-images'') ''images/rio/1.jpeg'',
         Transform \<lparr>width = Some 512, height = Some 512\<rparr> ''jpeg'' (Some 70),
         PutObject \<lparr>put_Body = [77, 97, 110], put_Bucket = ''transformed-images'',
                     put_Key = ''images/rio/1.jpeg/preset=medium'', put_ContentType = ''image/jpeg'',
                     put_Metadata_cache_control = Some ''max-age=31622400''\<rparr>,
         ConsoleLog [LStr ''APPLICATION ERROR'', LStr ''Could not upload transformed image to S3''],
         ConsoleLog [LErr ''AccessDenied'']])"
  by (simp add: image_processing_handler_def sample_env_def sample_world_def sample_event_def
      sample_paths fromEntries_def entry_of_def transform_def resolve_operations_def
      preset_case_def format_switch_def quality_literals upload_def sendError_def base64_sample
      del: base64.simps)

lemma sample_missing:
  "image_processing_handler sample_env sample_world (sample_event ''/images/rio/2.jpeg/preset=doordash'')
     = (Returned \<lparr>statusCode = JNum 200, body = ''error downloading original image'',
                    isBase64Encoded = None, response_headers = None\<rparr>,
        [GetObject (Some ''original-images'') ''images/rio/2.jpeg'',
         ConsoleLog [LStr ''APPLICATION ERROR'', LStr ''error downloading original image''],
         ConsoleLog [LErr ''NoSuchKey'']])"
  by (simp add: image_processing_handler_def sample_env_def sample_world_def sample_event_def
      sample_paths sendError_def)
subsection \<open>No preset in the descriptor\<close>

text \<open>
  Claim C5. The descriptor, the last segment of the path, is \<open>original\<close> or has no
  entry with the key \<open>preset\<close>, and the original image is fetched and read. Then the
  image library is called exactly once, with empty resizing options (no width, no height),
  format \<open>jpeg\<close> and quality 80; and when that call succeeds, the response carries its
  bytes with the content type \<open>image/jpeg\<close>.
\<close>

theorem no_preset_defaults:
  assumes "requestContext_http event = Some h"
    and "operationsPrefix = last (split CHR ''/'' (path h))"
    and "operationsPrefix = ''original''
         \<or> (\<forall>operation \<in> set (split CHR '','' operationsPrefix).
               hd (split CHR ''='' operation) \<noteq> ''preset'')"
    and "s3_getObject w (originalImageBucketName e)
           (join ''/'' (tl (butlast (split CHR ''/'' (path h))))) = Inr originalImage"
    and "sharp_metadata w (Body originalImage) = Inr ()"
  shows "filter is_Transform (snd (image_processing_handler e w event))
           = [Transform \<lparr>width = None, height = None\<rparr> ''jpeg'' (Some 80)]
    \<and> (\<forall>transformedImage.
          sharp_toBuffer w (Body originalImage) \<lparr>width = None, height = None\<rparr> ''jpeg'' (Some 80)
            = Inr transformedImage
          \<longrightarrow> (\<exists>r. fst (image_processing_handler e w event) = Returned r
                  \<and> body r = base64 transformedImage
                  \<and> header r ''Content-Type'' = Some ''image/jpeg''))"
proof -
  let ?J = "fromEntries (map (split CHR ''='') (split CHR '','' operationsPrefix))"
  from assms(3) have none: "\<forall>operation \<in> set (split CHR '','' operationsPrefix).
               hd (split CHR ''='' operation) \<noteq> ''preset''"
    using original_has_no_preset by blast
  have "?J ''preset'' = None"
    by (rule fromEntries_absent) (use none in \<open>simp add: entry_of_key split_not_Nil\<close>)
  then have t: "transform w b ?J =
     (case sharp_toBuffer w b \<lparr>width = None, height = None\<rparr> ''jpeg'' (Some 80) of
        Inl error \<Rightarrow> Inl error
      | Inr transformedImage \<Rightarrow> Inr (transformedImage, ''image/jpeg''),
      [Transform \<lparr>width = None, height = None\<rparr> ''jpeg'' (Some 80)])" for b
    by (rule transform_absent)
  show ?thesis
    using assms(1,4,5) t [of "Body originalImage"]
    by (simp add: image_processing_handler_def assms(2) [symmetric] Let_def sendError_def
        upload_no_Transform header_def split: sum.split)
qed

text \<open>
  The theorem for C5 at the request for \<open>/images/rio/1.jpeg/original\<close> on the sample
  store.
\<close>

theorem no_preset_defaults_witness:
  "filter is_Transform
     (snd (image_processing_handler sample_env sample_world
             (sample_event ''/images/rio/1.jpeg/original'')))
     = [Transform \<lparr>width = None, height = None\<rparr> ''jpeg'' (Some 80)]
   \<and> (\<exists>r. fst (image_processing_handler sample_env sample_world
                    (sample_event ''/images/rio/1.jpeg/original'')) = Returned r
            \<and> body r = base64 [77, 97, 110]
            \<and> header r ''Content-Type'' = Some ''image/jpeg'')"
proof -
  let ?h = "\<lparr>http_method = ''GET'', path = ''/images/rio/1.jpeg/original''\<rparr>"
  let ?img = "\<lparr>Body = [77], ContentType = Some ''image/png''\<rparr>"
  have h1: "requestContext_http (sample_event ''/images/rio/1.jpeg/original'') = Some ?h"
    by (simp add: sample_event_def)
  have h2: "''original'' = last (split CHR ''/'' (path ?h))"
    by (simp add: sample_paths)
  have h3: "''original'' = ''original''
         \<or> (\<forall>operation \<in> set (split CHR '','' ''original'').
               hd (split CHR ''='' operation) \<noteq> ''preset'')"
    by simp
  have h4: "s3_getObject sample_world (originalImageBucketName sample_env)
           (join ''/'' (tl (butlast (split CHR ''/'' (path ?h))))) = Inr ?img"
    by (simp add: sample_paths sample_world_def sample_env_def)
  have h5: "sharp_metadata sample_world (Body ?img) = Inr ()"
    by (simp add: sample_world_def)
  have run: "sharp_toBuffer sample_world (Body ?img) \<lparr>width = None, height = None\<rparr> ''jpeg''
               (Some 80) = Inr [77, 97, 110]"
    by (simp add: sample_world_def)
  from no_preset_defaults [OF h1 h2 h3 h4 h5] run show ?thesis
    by blast
qed

subsection \<open>The original image cannot be fetched\<close>

text \<open>
  When \<open>getObject\<close> fails, the handler answers at once with the response of
  \<open>sendError\<close>: the image library is not called and nothing is uploaded.
\<close>

lemma fetch_failure_effects:
  assumes "requestContext_http event = Some h"
    and "s3_getObject w (originalImageBucketName e)
           (join ''/'' (tl (butlast (split CHR ''/'' (path h))))) = Inl error"
  shows "image_processing_handler e w event
     = (Returned \<lparr>statusCode = JNum 200, body = ''error downloading original image'',
                    isBase64Encoded = None, response_headers = None\<rparr>,
        [GetObject (originalImageBucketName e) (join ''/'' (tl (butlast (split CHR ''/'' (path h))))),
         ConsoleLog [LStr ''APPLICATION ERROR'', LStr ''error downloading original image''],
         ConsoleLog [LErr error]])"
  using assms by (simp add: image_processing_handler_def sendError_def Let_def)

text \<open>
  Claim C2 at the request for \<open>/images/rio/2.jpeg/preset=doordash\<close>, a key the sample
  store does not hold. No bytes are transformed and nothing is uploaded, but the response
  carries the status code 200 and not a failure status: the handler passes 500 to
  \<open>sendError\<close>, which ignores it.
\<close>

theorem fetch_failure_answers_200:
  "s3_getObject sample_world (originalImageBucketName sample_env) ''images/rio/2.jpeg''
     = Inl ''NoSuchKey''
   \<and> fst (image_processing_handler sample_env sample_world
            (sample_event ''/images/rio/2.jpeg/preset=doordash''))
       = Returned \<lparr>statusCode = JNum 200, body = ''error downloading original image'',
                    isBase64Encoded = None, response_headers = None\<rparr>
   \<and> filter is_Transform (snd (image_processing_handler sample_env sample_world
            (sample_event ''/images/rio/2.jpeg/preset=doordash''))) = []
   \<and> filter is_PutObject (snd (image_processing_handler sample_env sample_world
            (sample_event ''/images/rio/2.jpeg/preset=doordash''))) = []"
proof -
  have absent: "s3_getObject sample_world (originalImageBucketName sample_env) ''images/rio/2.jpeg''
     = Inl ''NoSuchKey''"
    by (simp add: sample_world_def sample_env_def)
  then show ?thesis
    by (simp add: sample_missing)
qed

text \<open>
  The handler of unnamed/part_000 answers the same request with the status code 500, the one
  it passes to its \<open>sendError\<close>.
\<close>

lemma fetch_failure_answers_500_v2:
  "fst (image_processing_handler_v2 sample_env sample_world
          (sample_event ''/images/rio/2.jpeg/preset=doordash''))
     = Returned \<lparr>statusCode = JNum 500, body = ''error downloading original image'',
                  isBase64Encoded = None, response_headers = None\<rparr>"
  by (simp add: sample_world_def sample_env_def image_processing_handler_v2_def
      getObject_promise_v3_def sample_event_def truthy_def sample_paths sendError_v2_def)

subsection \<open>The upload fails\<close>

text \<open>
  Claim C3. The original image is fetched and read, the image library returns the
  transformed bytes, the bucket for transformed images is configured, and \<open>putObject\<close>
  fails. Then the handler still returns the status code 200 with the transformed bytes in
  base64 and the content type of the resolved format; the response is the one it returns
  when the upload succeeds, and the failure is written to the log.
\<close>

theorem cache_write_failure_keeps_response:
  assumes "requestContext_http event = Some h"
    and "originalImagePath = join ''/'' (tl (butlast (split CHR ''/'' (path h))))"
    and "operationsPrefix = last (split CHR ''/'' (path h))"
    and "s3_getObject w (originalImageBucketName e) originalImagePath = Inr originalImage"
    and "sharp_metadata w (Body originalImage) = Inr ()"
    and "resolve_operations (fromEntries (map (split CHR ''='') (split CHR '','' operationsPrefix)))
           = (resizingOptions, format, quality)"
    and "sharp_toBuffer w (Body originalImage) resizingOptions format (parseInt quality)
           = Inr transformedImage"
    and "transformedImageBucketName e = Some bucket" and "bucket \<noteq> []"
    and "s3_putObject w
           \<lparr>put_Body = transformedImage, put_Bucket = bucket,
              put_Key = originalImagePath @ ''/'' @ operationsPrefix,
              put_ContentType = fst (format_switch format),
              put_Metadata_cache_control = transformedImageCacheTTL e\<rparr> = Inl error"
  shows "fst (image_processing_handler e w event)
           = Returned \<lparr>statusCode = JNum 200, body = base64 transformedImage,
                        isBase64Encoded = Some True,
                        response_headers =
                          Some [(''Content-Type'', Some (fst (format_switch format))),
                                (''Cache-Control'', transformedImageCacheTTL e)]\<rparr>
    \<and> fst (image_processing_handler e w event)
          = fst (image_processing_handler e (w\<lparr>s3_putObject := \<lambda>params. Inr ()\<rparr>) event)
    \<and> ConsoleLog [LStr ''APPLICATION ERROR'', LStr ''Could not upload transformed image to S3'']
          \<in> set (snd (image_processing_handler e w event))"
  using assms(1,4-10)
  by (simp add: image_processing_handler_def assms(2,3) [symmetric] Let_def transform_def
      upload_def sendError_def case_prod_unfold)

text \<open>
  The theorem for C3 at the request for \<open>/images/rio/1.jpeg/preset=medium\<close> on the
  sample store, which rejects every upload.
\<close>

theorem cache_write_failure_keeps_response_witness:
  "s3_putObject sample_world
     \<lparr>put_Body = [77, 97, 110], put_Bucket = ''transformed-images'',
        put_Key = ''images/rio/1.jpeg/preset=medium'', put_ContentType = ''image/jpeg'',
        put_Metadata_cache_control = Some ''max-age=31622400''\<rparr> = Inl ''AccessDenied''
   \<and> fst (image_processing_handler sample_env sample_world
            (sample_event ''/images/rio/1.jpeg/preset=medium''))
       = Returned \<lparr>statusCode = JNum 200, body = base64 [77, 97, 110],
                    isBase64Encoded = Some True,
                    response_headers =
                      Some [(''Content-Type'', Some ''image/jpeg''),
                            (''Cache-Control'', Some ''max-age=31622400'')]\<rparr>"
proof -
  let ?h = "\<lparr>http_method = ''GET'', path = ''/images/rio/1.jpeg/preset=medium''\<rparr>"
  let ?img = "\<lparr>Body = [77], ContentType = Some ''image/png''\<rparr>"
  have h1: "requestContext_http (sample_event ''/images/rio/1.jpeg/preset=medium'') = Some ?h"
    by (simp add: sample_event_def)
  have h2: "''images/rio/1.jpeg'' = join ''/'' (tl (butlast (split CHR ''/'' (path ?h))))"
    by (simp add: sample_paths)
  have h3: "''preset=medium'' = last (split CHR ''/'' (path ?h))"
    by (simp add: sample_paths)
  have h4: "s3_getObject sample_world (originalImageBucketName sample_env) ''images/rio/1.jpeg''
              = Inr ?img"
    by (simp add: sample_world_def sample_env_def)
  have h5: "sharp_metadata sample_world (Body ?img) = Inr ()"
    by (simp add: sample_world_def)
  have h6: "resolve_operations
              (fromEntries (map (split CHR ''='') (split CHR '','' ''preset=medium'')))
              = (\<lparr>width = Some 512, height = Some 512\<rparr>, ''jpeg'', ''70'')"
    by (simp add: resolve_operations_def fromEntries_def entry_of_def preset_case_def)
  have h7: "sharp_toBuffer sample_world (Body ?img) \<lparr>width = Some 512, height = Some 512\<rparr>
              ''jpeg'' (parseInt ''70'') = Inr [77, 97, 110]"
    by (simp add: sample_world_def)
  have h8: "transformedImageBucketName sample_env = Some ''transformed-images''"
    by (simp add: sample_env_def)
  have h9: "''transformed-images'' \<noteq> []" by simp
  have h10: "s3_putObject sample_world
           \<lparr>put_Body = [77, 97, 110], put_Bucket = ''transformed-images'',
              put_Key = ''images/rio/1.jpeg'' @ ''/'' @ ''preset=medium'',
              put_ContentType = fst (format_switch ''jpeg''),
              put_Metadata_cache_control = transformedImageCacheTTL sample_env\<rparr>
            = Inl ''AccessDenied''"
    by (simp add: sample_world_def)
  have put: "s3_putObject sample_world
     \<lparr>put_Body = [77, 97, 110], put_Bucket = ''transformed-images'',
        put_Key = ''images/rio/1.jpeg/preset=medium'', put_ContentType = ''image/jpeg'',
        put_Metadata_cache_control = Some ''max-age=31622400''\<rparr> = Inl ''AccessDenied''"
    by (simp add: sample_world_def)
  have ct: "fst (format_switch ''jpeg'') = ''image/jpeg''" by (simp add: format_switch_def)
  have ttl: "transformedImageCacheTTL sample_env = Some ''max-age=31622400''"
    by (simp add: sample_env_def)
  from cache_write_failure_keeps_response [OF h1 h2 h3 h4 h5 h6 h7 h8 h9 h10]
  have "fst (image_processing_handler sample_env sample_world
            (sample_event ''/images/rio/1.jpeg/preset=medium''))
       = Returned \<lparr>statusCode = JNum 200, body = base64 [77, 97, 110],
                    isBase64Encoded = Some True,
                    response_headers =
                      Some [(''Content-Type'', Some (fst (format_switch ''jpeg''))),
                            (''Cache-Control'', transformedImageCacheTTL sample_env)]\<rparr>"
    by (rule conjunct1)
  with put show ?thesis unfolding ct ttl by (rule conjI)
qed

subsection \<open>The content type of a format\<close>

text \<open>
  Every preset and the default set the format to \<open>jpeg\<close>, so the handler only ever
  reads the first row of the table below.
\<close>

lemma resolved_format_is_jpeg: "fst (snd (resolve_operations operationsJSON)) = ''jpeg''"
proof -
  have "fst (snd (preset_body b)) = ''jpeg''" for b
    by (cases b) simp_all
  then show ?thesis
    by (simp add: resolve_operations_def Let_def split: option.split)
qed

text \<open>
  Claim C6, as the code has it. The switch on the format is total: \<open>jpeg\<close> gives
  \<open>image/jpeg\<close>, \<open>jpg\<close> gives \<open>image/jpg\<close>, \<open>gif\<close>, \<open>webp\<close>, \<open>png\<close> and
  \<open>avif\<close> give the content type of their name, and every other string gives
  \<open>image/jpeg\<close>.
\<close>

theorem format_content_type_table:
  "fst (format_switch ''jpeg'') = ''image/jpeg''
   \<and> fst (format_switch ''jpg'') = ''image/jpg''
   \<and> fst (format_switch ''gif'') = ''image/gif''
   \<and> fst (format_switch ''webp'') = ''image/webp''
   \<and> fst (format_switch ''png'') = ''image/png''
   \<and> fst (format_switch ''avif'') = ''image/avif''
   \<and> (\<forall>format. format \<notin> {''jpeg'', ''jpg'', ''gif'', ''webp'', ''png'', ''avif''}
          \<longrightarrow> fst (format_switch format) = ''image/jpeg'')"
  by (simp add: format_switch_def)

text \<open>
  The theorem for C6 at two strings outside the table.
\<close>

theorem format_content_type_table_witness:
  "fst (format_switch ''bmp'') = ''image/jpeg'' \<and> fst (format_switch '''') = ''image/jpeg''"
  using format_content_type_table by simp

text \<open>
  Claim C6 as stated fails at \<open>jpg\<close>: its content type is \<open>image/jpg\<close>, not
  \<open>image/jpeg\<close>.
\<close>

theorem format_jpg_counterexample:
  "fst (format_switch ''jpg'') = ''image/jpg'' \<and> fst (format_switch ''jpg'') \<noteq> ''image/jpeg''"
  by (simp add: format_switch_def)

subsection \<open>The presets of the allow-list in the switch\<close>

lemma preset_case_allow_listed:
  "preset_case ''thumb'' = case_thumb" "preset_case ''small'' = case_small"
  "preset_case ''medium'' = case_medium" "preset_case ''large'' = case_large"
  "preset_case ''xlarge'' = case_xlarge" "preset_case ''small_wide'' = case_small_wide"
  "preset_case ''medium_wide'' = case_medium_wide" "preset_case ''large_wide'' = case_large_wide"
  "preset_case ''xlarge_wide'' = case_xlarge_wide_default"
  "preset_case ''doordash'' = case_doordash"
  by (simp_all add: preset_case_def)

lemma preset_case_unlisted_a:
  "u \<noteq> ''icon'' \<Longrightarrow> u \<noteq> ''thumb'' \<Longrightarrow> u \<noteq> ''large'' \<Longrightarrow> u \<noteq> ''medium'' \<Longrightarrow> u \<noteq> ''small'' \<Longrightarrow>
   u \<noteq> ''xlarge'' \<Longrightarrow> u \<noteq> ''icon_wide'' \<Longrightarrow> u \<noteq> ''thumb_wide'' \<Longrightarrow> u \<noteq> ''large_wide'' \<Longrightarrow>
   u \<noteq> ''medium_wide'' \<Longrightarrow> u \<noteq> ''small_wide'' \<Longrightarrow> u \<noteq> ''doordash''
   \<Longrightarrow> preset_case u = case_xlarge_wide_default"
  unfolding preset_case_def by (simp only: if_False if_cancel)

lemma preset_case_unlisted:
  "u \<notin> set (''icon'' # ''icon_wide'' # ''thumb_wide'' # ALLOWED_PRESETS)
   \<Longrightarrow> preset_case u = case_xlarge_wide_default"
  by (rule preset_case_unlisted_a) (simp_all add: ALLOWED_PRESETS_def)

lemma branch_label_allow_listed:
  "p \<in> set ALLOWED_PRESETS \<Longrightarrow> branch_label (preset_case p) = p"
  by (auto simp: ALLOWED_PRESETS_def preset_case_allow_listed)

lemma preset_body_concrete:
  "\<exists>w h q n. preset_body b = (\<lparr>width = Some w, height = Some h\<rparr>, ''jpeg'', q)
      \<and> 0 < w \<and> 0 < h \<and> parseInt q = Some n \<and> 1 \<le> n \<and> n \<le> 100"
  by (cases b) (simp_all add: quality_literals)

text \<open>
  Claim C8, as the code has it. Every name of the Normalizer's allow-list resolves to a
  width, a height, the format \<open>jpeg\<close> and a quality between 1 and 100. Every name but
  \<open>xlarge_wide\<close> has a statement list of its own, which no other name of the allow-list
  reaches and which is not the one of \<open>default\<close>. The label of \<open>xlarge_wide\<close> falls
  through into the statement list of \<open>default\<close>, the one every name without a label
  reaches.
\<close>

theorem allow_listed_presets_resolve:
  "(\<forall>p \<in> set ALLOWED_PRESETS.
      (\<exists>w h q n. preset_body (preset_case p) = (\<lparr>width = Some w, height = Some h\<rparr>, ''jpeg'', q)
          \<and> 0 < w \<and> 0 < h \<and> parseInt q = Some n \<and> 1 \<le> n \<and> n \<le> 100)
      \<and> (p \<noteq> ''xlarge_wide'' \<longrightarrow>
            preset_case p \<noteq> case_xlarge_wide_default
            \<and> (\<forall>p' \<in> set ALLOWED_PRESETS. preset_case p' = preset_case p \<longrightarrow> p' = p)))
   \<and> preset_case ''xlarge_wide'' = case_xlarge_wide_default
   \<and> (\<forall>u. u \<notin> set (''icon'' # ''icon_wide'' # ''thumb_wide'' # ALLOWED_PRESETS)
          \<longrightarrow> preset_case u = case_xlarge_wide_default)"
proof (intro conjI ballI allI impI)
  fix p assume "p \<in> set ALLOWED_PRESETS"
  show "\<exists>w h q n. preset_body (preset_case p) = (\<lparr>width = Some w, height = Some h\<rparr>, ''jpeg'', q)
          \<and> 0 < w \<and> 0 < h \<and> parseInt q = Some n \<and> 1 \<le> n \<and> n \<le> 100"
    by (rule preset_body_concrete)
next
  fix p assume "p \<in> set ALLOWED_PRESETS" "p \<noteq> ''xlarge_wide''"
  then show "preset_case p \<noteq> case_xlarge_wide_default"
    by (auto simp: ALLOWED_PRESETS_def preset_case_allow_listed)
next
  fix p p' assume "p \<in> set ALLOWED_PRESETS" "p \<noteq> ''xlarge_wide''"
    "p' \<in> set ALLOWED_PRESETS" "preset_case p' = preset_case p"
  then have "branch_label (preset_case p') = branch_label (preset_case p)" by simp
  with \<open>p \<in> set ALLOWED_PRESETS\<close> \<open>p' \<in> set ALLOWED_PRESETS\<close> show "p' = p"
    by (simp add: branch_label_allow_listed)
next
  show "preset_case ''xlarge_wide'' = case_xlarge_wide_default"
    by (simp add: preset_case_allow_listed)
next
  fix u assume "u \<notin> set (''icon'' # ''icon_wide'' # ''thumb_wide'' # ALLOWED_PRESETS)"
  then show "preset_case u = case_xlarge_wide_default"
    by (rule preset_case_unlisted)
qed

text \<open>
  The theorem for C8 at \<open>doordash\<close> and at a name without a label.
\<close>

theorem allow_listed_presets_resolve_witness:
  "(\<exists>w h q n. preset_body (preset_case ''doordash'')
                 = (\<lparr>width = Some w, height = Some h\<rparr>, ''jpeg'', q)
          \<and> 0 < w \<and> 0 < h \<and> parseInt q = Some n \<and> 1 \<le> n \<and> n \<le> 100)
   \<and> preset_case ''doordash'' \<noteq> case_xlarge_wide_default
   \<and> preset_case ''no_such_preset'' = case_xlarge_wide_default"
proof -
  have a: "''doordash'' \<in> set ALLOWED_PRESETS" by (simp add: ALLOWED_PRESETS_def)
  have b: "''doordash'' \<noteq> ''xlarge_wide''" by simp
  have c: "''no_such_preset'' \<notin> set (''icon'' # ''icon_wide'' # ''thumb_wide'' # ALLOWED_PRESETS)"
    by (simp add: ALLOWED_PRESETS_def)
  note entry = allow_listed_presets_resolve [THEN conjunct1, THEN bspec, OF a]
  note concrete = entry [THEN conjunct1]
  note dedicated = entry [THEN conjunct2, THEN mp, OF b, THEN conjunct1]
  note fallback = allow_listed_presets_resolve [THEN conjunct2, THEN conjunct2, THEN spec, THEN mp, OF c]
  from concrete dedicated fallback show ?thesis
    by (intro conjI)
qed

text \<open>
  Claim C8 as stated fails at \<open>xlarge_wide\<close>: it has no entry of its own, and resolves
  to the statement list and the values an unknown name resolves to.
\<close>

theorem xlarge_wide_shares_default_counterexample:
  "''xlarge_wide'' \<in> set ALLOWED_PRESETS
   \<and> ''no_such_preset'' \<notin> set ALLOWED_PRESETS
   \<and> preset_case ''xlarge_wide'' = preset_case ''no_such_preset''
   \<and> preset_body (preset_case ''xlarge_wide'')
       = (\<lparr>width = Some 2048, height = Some 1152\<rparr>, ''jpeg'', ''80'')
   \<and> preset_body (preset_case ''no_such_preset'')
       = (\<lparr>width = Some 2048, height = Some 1152\<rparr>, ''jpeg'', ''80'')"
  by (simp add: ALLOWED_PRESETS_def preset_case_def)

subsection \<open>The status code\<close>

text \<open>
  Claim C9. Every response the handler of functions/image-processing/index.js returns has
  the status code 200: the success response sets it, and \<open>sendError\<close> ignores the status
  it is given and answers 200 too.
\<close>

theorem every_response_200:
  "fst (image_processing_handler e w event) = Returned r \<Longrightarrow> statusCode r = JNum 200"
  by (auto simp: image_processing_handler_def sendError_def Let_def
      split: option.splits sum.splits prod.splits)

text \<open>
  The theorem for C9 at a request for a missing image, answered by \<open>sendError\<close>, and
  at a request that is served.
\<close>

theorem every_response_200_witness:
  "(\<exists>r. fst (image_processing_handler sample_env sample_world
                 (sample_event ''/images/rio/2.jpeg/preset=doordash'')) = Returned r
         \<and> body r = ''error downloading original image'' \<and> statusCode r = JNum 200)
   \<and> (\<exists>r. fst (image_processing_handler sample_env sample_world
                 (sample_event ''/images/rio/1.jpeg/preset=medium'')) = Returned r
         \<and> body r = ''TWFu'' \<and> statusCode r = JNum 200)"
proof -
  let ?failed = "\<lparr>statusCode = JNum 200, body = ''error downloading original image'',
                    isBase64Encoded = None, response_headers = None\<rparr>"
  let ?served = "\<lparr>statusCode = JNum 200, body = ''TWFu'', isBase64Encoded = Some True,
                    response_headers = Some [(''Content-Type'', Some ''image/jpeg''),
                                             (''Cache-Control'', Some ''max-age=31622400'')]\<rparr>"
  have a: "fst (image_processing_handler sample_env sample_world
                 (sample_event ''/images/rio/2.jpeg/preset=doordash'')) = Returned ?failed"
    by (simp add: sample_missing)
  have b: "fst (image_processing_handler sample_env sample_world
                 (sample_event ''/images/rio/1.jpeg/preset=medium'')) = Returned ?served"
    by (simp add: sample_medium)
  have "body ?failed = ''error downloading original image''" "body ?served = ''TWFu''"
    by simp_all
  with a b every_response_200 [OF a] every_response_200 [OF b] show ?thesis
    by blast
qed

section \<open>The two versions of the Transformation Engine\<close>

text \<open>
  The switch of unnamed/part_000 has the same statement lists as the one of
  functions/image-processing/index.js, without \<open>icon\<close>, \<open>icon_wide\<close> and
  \<open>thumb_wide\<close>; on every other preset the two agree, and so do the format switch and
  the upload.
\<close>

lemma sendError_v2_log: "snd (sendError_v2 c b x) = snd (sendError c' b x)"
  by (simp add: sendError_v2_def sendError_def)

lemma sendError_v2_body: "body (fst (sendError_v2 c b x)) = b" "body (fst (sendError c b x)) = b"
  "response_headers (fst (sendError_v2 c b x)) = None" "response_headers (fst (sendError c b x)) = None"
  by (simp_all add: sendError_v2_def sendError_def)














end
